theory Spec2Isabelle
  imports Main "HOL-Library.Sublist" "HOL-Library.Word"
begin

section \<open>Go strings\<close>

text \<open>
  A Go \<^verbatim>\<open>string\<close> is a byte sequence; it is modelled as a \<^typ>\<open>string\<close> (a list of
  \<^typ>\<open>char\<close>, one per byte), so \<^verbatim>\<open>len(s)\<close> is \<^term>\<open>length s\<close> and \<^verbatim>\<open>s[i:]\<close> is
  \<^term>\<open>drop i s\<close>.  \<^verbatim>\<open>strings.ToUpper\<close>, \<^verbatim>\<open>strings.ToLower\<close> and \<^verbatim>\<open>strings.Fields\<close> are
  modelled on ASCII: the letters a-z and A-Z change case, the six ASCII white-space bytes
  separate fields, and every other byte is left alone.  The prefix and suffix tables of
  the program are ASCII throughout.
\<close>

definition toUpperChar :: "char \<Rightarrow> char" where
  "toUpperChar c =
     (case map_of (zip ''abcdefghijklmnopqrstuvwxyz'' ''ABCDEFGHIJKLMNOPQRSTUVWXYZ'') c of
        Some u \<Rightarrow> u | None \<Rightarrow> c)"

definition toLowerChar :: "char \<Rightarrow> char" where
  "toLowerChar c =
     (case map_of (zip ''ABCDEFGHIJKLMNOPQRSTUVWXYZ'' ''abcdefghijklmnopqrstuvwxyz'') c of
        Some l \<Rightarrow> l | None \<Rightarrow> c)"

definition ToUpper :: "string \<Rightarrow> string" where
  "ToUpper s = map toUpperChar s"

definition ToLower :: "string \<Rightarrow> string" where
  "ToLower s = map toLowerChar s"

text \<open>\<^verbatim>\<open>strings.HasPrefix(s, p)\<close>.\<close>

definition HasPrefix :: "string \<Rightarrow> string \<Rightarrow> bool" where
  "HasPrefix s p = prefix p s"

text \<open>\<^verbatim>\<open>strings.Index(s, sub)\<close>: the position of the first occurrence of \<open>sub\<close> in
  \<open>s\<close>; Go's \<open>-1\<close> is \<^term>\<open>None\<close>.  \<^verbatim>\<open>strings.Contains(s, sub)\<close> is \<open>Index(s, sub) >= 0\<close>.\<close>

fun Index :: "string \<Rightarrow> string \<Rightarrow> nat option" where
  "Index [] sub = (if sub = [] then Some 0 else None)"
| "Index (c # s) sub =
     (if prefix sub (c # s) then Some 0 else map_option Suc (Index s sub))"

definition Contains :: "string \<Rightarrow> string \<Rightarrow> bool" where
  "Contains s sub = (Index s sub \<noteq> None)"


definition isSpace :: "char \<Rightarrow> bool" where
  "isSpace c = (c \<in> set [CHR '' '', CHR 0x09, CHR 0x0A, CHR 0x0B, CHR 0x0C, CHR 0x0D])"

text \<open>\<^verbatim>\<open>strings.Fields(s)\<close>: the maximal runs of non-space bytes, in order.  The
  accumulator \<open>cur\<close> is the field being read.\<close>

fun fieldsAux :: "string \<Rightarrow> string \<Rightarrow> string list" where
  "fieldsAux cur [] = (if cur = [] then [] else [cur])"
| "fieldsAux cur (c # s) =
     (if isSpace c then (if cur = [] then fieldsAux [] s else cur # fieldsAux [] s)
      else fieldsAux (cur @ [c]) s)"

definition Fields :: "string \<Rightarrow> string list" where
  "Fields s = fieldsAux [] s"

text \<open>\<^verbatim>\<open>strings.Join(elems, sep)\<close>.\<close>

fun Join :: "string list \<Rightarrow> string \<Rightarrow> string" where
  "Join [] sep = []"
| "Join [x] sep = x"
| "Join (x # y # ys) sep = x @ sep @ Join (y # ys) sep"

definition TrimSpace :: "string \<Rightarrow> string" where
  "TrimSpace s = rev (dropWhile isSpace (rev (dropWhile isSpace s)))"

section \<open>Name normalizer (internal/epg/filter.go)\<close>

definition countryPrefixes :: "string list" where
  "countryPrefixes =
     [''USA  '', ''World  '', ''AUS  '',
      ''US:'', ''AU:'', ''AUS:'', ''UK:'', ''PH:'', ''BR:'', ''CA:'', ''NZ:'', ''MX:'', ''ID:'',
      ''USA '', ''UK '', ''PH '', ''BR '', ''ID '', ''MY '', ''MX '', ''AUS '',
      ''Carib '', ''World '', ''Latin '', ''US '']"

text \<open>\<^verbatim>\<open>regionPrefixes\<close> is a Go map literal; its entries are listed in the order of the
  source text.  \<^verbatim>\<open>extractRegion\<close> ranges over it, so the order in which the entries are
  visited is an argument of the model (\<open>extractRegionIn\<close>).\<close>

definition regionPrefixes :: "(string \<times> string) list" where
  "regionPrefixes =
     [(''US:'', ''us''), (''USA '', ''us''), (''USA  '', ''us''), (''US '', ''us''),
      (''AU:'', ''au''), (''AUS:'', ''au''), (''AUS '', ''au''), (''AUS  '', ''au''),
      (''UK:'', ''uk''), (''UK '', ''uk''),
      (''PH:'', ''ph''), (''PH '', ''ph''),
      (''BR:'', ''br''), (''BR '', ''br''),
      (''CA:'', ''ca''),
      (''NZ:'', ''nz''),
      (''MX:'', ''mx''), (''MX '', ''mx''),
      (''ID:'', ''id''), (''ID '', ''id''),
      (''MY '', ''my''),
      (''Carib '', ''carib''),
      (''World '', ''world''), (''World  '', ''world''),
      (''Latin '', ''latin'')]"

definition qualitySuffixes :: "string list" where
  "qualitySuffixes =
     [''(HD)'', ''(FHD)'', ''(SD)'', ''(4K)'', ''(UHD)'',
      ''(S)'', ''(A)'', ''(H)'', ''(D)'', ''(C)'', ''(P)'', ''(FL)'', ''(F)'', ''(E)'', ''(R)'',
      ''(North America)'', ''(EMEA)'', ''(PRIME)'', ''(TUBI)'',
      '' FHD'', '' HD'']"

text \<open>The body of \<^verbatim>\<open>extractRegion\<close>'s loop over the entries in visiting order \<open>tbl\<close>:
  the region of the first entry whose upper-cased prefix starts the upper-cased name,
  the empty string when there is none.\<close>

fun extractRegionIn :: "(string \<times> string) list \<Rightarrow> string \<Rightarrow> string" where
  "extractRegionIn [] name = []"
| "extractRegionIn ((pre, reg) # tbl) name =
     (if HasPrefix (ToUpper name) (ToUpper pre) then reg else extractRegionIn tbl name)"

definition extractRegion :: "string \<Rightarrow> string" where
  "extractRegion name = extractRegionIn regionPrefixes name"

text \<open>The first loop of \<^verbatim>\<open>normalizeChannelName\<close>: one pass over the prefix list; an
  entry that starts the (upper-cased) remainder is cut off, and the pass goes on with the
  next entry on what is left.\<close>

fun stripPrefixes :: "string list \<Rightarrow> string \<Rightarrow> string" where
  "stripPrefixes [] normalized = normalized"
| "stripPrefixes (pre # ps) normalized =
     (if HasPrefix (ToUpper normalized) (ToUpper pre)
      then stripPrefixes ps (drop (length pre) normalized)
      else stripPrefixes ps normalized)"

text \<open>The inner loop of the suffix phase: while the upper-cased name contains the
  upper-cased suffix, cut its first occurrence out.  Every entry of \<open>qualitySuffixes\<close> is
  non-empty, so each round shortens the name; for an empty suffix (which the table
  never holds, and on which the Go loop would not stop) the model returns the name.\<close>

function stripSuffix :: "string \<Rightarrow> string \<Rightarrow> string" where
  "stripSuffix suf normalized =
     (case Index (ToUpper normalized) (ToUpper suf) of
        None \<Rightarrow> normalized
      | Some idx \<Rightarrow>
          if suf = [] then normalized
          else stripSuffix suf (take idx normalized @ drop (idx + length suf) normalized))"
  by pat_completeness auto

lemma Index_bound: "Index s sub = Some i \<Longrightarrow> i + length sub \<le> length s"
proof (induction s arbitrary: i)
  case Nil
  then show ?case by (simp split: if_splits)
next
  case (Cons c s)
  show ?case
  proof (cases "prefix sub (c # s)")
    case True
    with Cons.prems have "i = 0" by simp
    with prefix_length_le [OF True] show ?thesis by simp
  next
    case False
    with Cons.prems obtain j where "Index s sub = Some j" "i = Suc j" by auto
    with Cons.IH show ?thesis by fastforce
  qed
qed

lemma ToUpper_length: "length (ToUpper s) = length s"
  by (simp add: ToUpper_def)

termination stripSuffix
proof (relation "measure (\<lambda>(suf, normalized). length normalized)")
  show "wf (measure (\<lambda>(suf, normalized). length normalized))" by simp
next
  fix suf normalized :: string and idx :: nat
  assume idx: "Index (ToUpper normalized) (ToUpper suf) = Some idx" and ne: "suf \<noteq> []"
  define n l where "n = length normalized" and "l = length suf"
  from Index_bound [OF idx] have a: "idx + l \<le> n"
    by (simp add: ToUpper_length n_def l_def)
  from ne have b: "0 < l" by (simp add: l_def)
  have "length (take idx normalized @ drop (idx + length suf) normalized)
          = min idx n + (n - (idx + l))"
    by (simp add: n_def l_def)
  also from a b have "\<dots> < n" by arith
  finally show "((suf, take idx normalized @ drop (idx + length suf) normalized),
                 (suf, normalized)) \<in> measure (\<lambda>(suf, normalized). length normalized)"
    by (simp add: n_def)
qed

fun stripSuffixes :: "string list \<Rightarrow> string \<Rightarrow> string" where
  "stripSuffixes [] normalized = normalized"
| "stripSuffixes (suf # ss) normalized = stripSuffixes ss (stripSuffix suf normalized)"

definition normalizeChannelName :: "string \<Rightarrow> string" where
  "normalizeChannelName name =
     ToLower (TrimSpace (Join (Fields
       (stripSuffixes qualitySuffixes (stripPrefixes countryPrefixes name))) '' ''))"

section \<open>Data model (internal/m3u/parser.go, internal/epg/parser.go)\<close>

text \<open>\<^verbatim>\<open>m3u.Channel\<close>, one playlist entry.\<close>

record m3u_Channel =
  Name :: string
  URL :: string
  TVGID :: string
  TVGName :: string
  TVGLogo :: string
  Group :: string
  Original :: string

record Icon =
  Src :: string

text \<open>\<^verbatim>\<open>epg.Channel\<close>, one guide channel.\<close>

record Channel =
  ID :: string
  DisplayName :: string
  Icon :: Icon

record Programme =
  Channel :: string
  Start :: string
  Stop :: string
  Title :: string
  Description :: string
  Category :: string

text \<open>\<^verbatim>\<open>epg.TV\<close>; the \<^verbatim>\<open>XMLName\<close> field is copied through unchanged by every function
  here and is left out.\<close>

record TV =
  Channels :: "Channel list"
  Programs :: "Programme list"

record m3uNormalizedInfo =
  originalName :: string
  normalizedName :: string
  region :: string

section \<open>Go maps\<close>

text \<open>
  A Go map is a partial function \<open>'k \<rightharpoonup> 'v\<close>.  A map of type \<^verbatim>\<open>map[K]bool\<close> or
  \<^verbatim>\<open>map[K][]int\<close> whose lookups never ask whether the key is present is a total function
  that gives the zero value (\<^term>\<open>False\<close>, \<^term>\<open>[]\<close>) on a missing key.

  Go leaves the order of a \<^verbatim>\<open>range\<close> over a map unspecified.  Each function that ranges
  over a map takes the order of the keys of that visit as an argument \<open>ks\<close>, and
  \<open>rangeMap m ks\<close> lists the entries that are visited.  \<open>visits m ks\<close> says that \<open>ks\<close> is a
  possible order: every key of the map once.
\<close>

definition rangeMap :: "('k \<rightharpoonup> 'v) \<Rightarrow> 'k list \<Rightarrow> ('k \<times> 'v) list" where
  "rangeMap m ks = List.map_filter (\<lambda>k. map_option (Pair k) (m k)) ks"

definition visits :: "('k \<rightharpoonup> 'v) \<Rightarrow> 'k list \<Rightarrow> bool" where
  "visits m ks \<longleftrightarrow> distinct ks \<and> set ks = dom m"

section \<open>Identifier allocator\<close>

text \<open>\<^verbatim>\<open>fmt.Sprintf("%d", n)\<close> for a non-negative \<open>n\<close>.\<close>

definition digitChar :: "nat \<Rightarrow> char" where
  "digitChar d = ''0123456789abcdef'' ! d"

function showNat :: "nat \<Rightarrow> string" where
  "showNat n = (if n < 10 then [digitChar n] else showNat (n div 10) @ [digitChar (n mod 10)])"
  by pat_completeness auto
termination
  by (relation "measure id") auto

text \<open>\<^verbatim>\<open>generateChannelID\<close>: \<^verbatim>\<open>fmt.Sprintf("%x", md5.Sum([]byte(displayName)))\<close>.  The
  digest function of \<^verbatim>\<open>crypto/md5\<close> is an argument \<open>md5\<close> of the model; its result, a
  \<^verbatim>\<open>[16]byte\<close>, is a 128-bit word (first byte most significant), which \<^verbatim>\<open>%x\<close> prints as
  32 hexadecimal digits.\<close>

definition hexDigits :: "128 word \<Rightarrow> string" where
  "hexDigits w = map (\<lambda>i. digitChar ((unat w div 16 ^ (31 - i)) mod 16)) [0..<32]"

definition generateChannelID :: "(string \<Rightarrow> 128 word) \<Rightarrow> string \<Rightarrow> string" where
  "generateChannelID md5 displayName = hexDigits (md5 displayName)"

section \<open>Channel matcher (internal/epg/filter.go)\<close>

fun namesWithTVGIDOf :: "m3u_Channel list \<Rightarrow> string \<Rightarrow> bool" where
  "namesWithTVGIDOf [] = (\<lambda>_. False)"
| "namesWithTVGIDOf (channel # cs) =
     (let rest = namesWithTVGIDOf cs
      in if TVGID channel \<noteq> [] \<and> Name channel \<noteq> [] then rest(Name channel := True) else rest)"

text \<open>The second loop of \<^verbatim>\<open>buildNormalizedNameMap\<close>, with the map built so far as
  accumulator.\<close>

fun normalizedMapLoop ::
  "(string \<Rightarrow> bool) \<Rightarrow> m3u_Channel list \<Rightarrow> (string \<rightharpoonup> m3uNormalizedInfo)
     \<Rightarrow> (string \<rightharpoonup> m3uNormalizedInfo)" where
  "normalizedMapLoop namesWithTVGID [] normalizedMap = normalizedMap"
| "normalizedMapLoop namesWithTVGID (channel # cs) normalizedMap =
     (if TVGID channel \<noteq> [] then normalizedMapLoop namesWithTVGID cs normalizedMap
      else if namesWithTVGID (Name channel) then normalizedMapLoop namesWithTVGID cs normalizedMap
      else if Name channel \<noteq> [] then
        (let normalized = normalizeChannelName (Name channel);
             reg = extractRegion (Name channel)
         in if normalizedMap normalized = None
            then normalizedMapLoop namesWithTVGID cs
                   (normalizedMap(normalized \<mapsto>
                      \<lparr>originalName = Name channel, normalizedName = normalized, region = reg\<rparr>))
            else normalizedMapLoop namesWithTVGID cs normalizedMap)
      else normalizedMapLoop namesWithTVGID cs normalizedMap)"

definition buildNormalizedNameMap :: "m3u_Channel list \<Rightarrow> (string \<rightharpoonup> m3uNormalizedInfo)" where
  "buildNormalizedNameMap m3uChannels =
     normalizedMapLoop (namesWithTVGIDOf m3uChannels) m3uChannels Map.empty"

definition buildChannelNameMap :: "m3u_Channel list \<Rightarrow> string \<Rightarrow> bool" where
  "buildChannelNameMap m3uChannels =
     fold (\<lambda>channel channelMap.
             if Name channel \<noteq> [] then channelMap(Name channel := True) else channelMap)
       m3uChannels (\<lambda>_. False)"

definition buildTVGIDMap :: "m3u_Channel list \<Rightarrow> (string \<rightharpoonup> string)" where
  "buildTVGIDMap m3uChannels =
     fold (\<lambda>channel tvgIDMap.
             if TVGID channel \<noteq> [] \<and> Name channel \<noteq> []
             then tvgIDMap(TVGID channel \<mapsto> Name channel) else tvgIDMap)
       m3uChannels Map.empty"


text \<open>\<^verbatim>\<open>matcherState\<close> without its logger.  Guide channels are addressed by their
  position in \<open>epgChannels\<close>.\<close>

record matcherState =
  epgChannels :: "Channel list"
  matchedChannels :: "Channel list"
  channelIDMap :: "string \<rightharpoonup> string"
  matchedM3U :: "string \<Rightarrow> bool"
  matchedEPG :: "nat \<Rightarrow> bool"
  idUsageCount :: "string \<rightharpoonup> nat"
  epgIDToCandidates :: "string \<Rightarrow> nat list"

definition newMatcherState :: "Channel list \<Rightarrow> matcherState" where
  "newMatcherState chans =
     \<lparr>epgChannels = chans,
      matchedChannels = [],
      channelIDMap = Map.empty,
      matchedM3U = (\<lambda>_. False),
      matchedEPG = (\<lambda>_. False),
      idUsageCount = Map.empty,
      epgIDToCandidates =
        fold (\<lambda>i cands. if ID (chans ! i) \<noteq> []
                          then cands(ID (chans ! i) := cands (ID (chans ! i)) @ [i]) else cands)
          [0..<length chans] (\<lambda>_. [])\<rparr>"

text \<open>The identifier that \<^verbatim>\<open>addMatch\<close> starts from (\<^verbatim>\<open>originalID\<close>): the guide channel's
  own, or the content hash of its display name when it has none.\<close>

definition originalIDOf :: "(string \<Rightarrow> 128 word) \<Rightarrow> Channel \<Rightarrow> string" where
  "originalIDOf md5 ch = (if ID ch = [] then generateChannelID md5 (DisplayName ch) else ID ch)"

text \<open>\<^verbatim>\<open>addMatch\<close>.  It is called with positions inside \<open>epgChannels\<close> only (a loop index
  or an entry of \<open>epgIDToCandidates\<close>).  The usage count is a \<^typ>\<open>nat\<close>: it is bounded by
  the number of guide channels, far from the range of Go's \<^verbatim>\<open>int\<close>.\<close>

definition addMatch :: "(string \<Rightarrow> 128 word) \<Rightarrow> matcherState \<Rightarrow> nat \<Rightarrow> string \<Rightarrow> matcherState" where
  "addMatch md5 s epgIdx m3uName =
     (let epgCopy = epgChannels s ! epgIdx;
          originalID = originalIDOf md5 epgCopy;
          newID = (case idUsageCount s originalID of
                     Some count \<Rightarrow> originalID @ ''-'' @ showNat (count + 1)
                   | None \<Rightarrow> originalID)
      in s\<lparr>matchedEPG := (matchedEPG s)(epgIdx := True),
           matchedM3U := (matchedM3U s)(m3uName := True),
           idUsageCount := (idUsageCount s)(originalID \<mapsto>
                              (case idUsageCount s originalID of Some count \<Rightarrow> count + 1 | None \<Rightarrow> 1)),
           matchedChannels := matchedChannels s @ [epgCopy\<lparr>ID := newID\<rparr>],
           channelIDMap := (channelIDMap s)(newID \<mapsto> m3uName)\<rparr>)"

text \<open>\<^verbatim>\<open>findBestTVGIDCandidate\<close>; the second argument of the loop is \<^verbatim>\<open>bestIdx\<close>, with
  \<^term>\<open>None\<close> for Go's \<open>-1\<close>.\<close>

fun findBestTVGIDLoop :: "matcherState \<Rightarrow> string \<Rightarrow> nat list \<Rightarrow> nat option \<Rightarrow> nat option" where
  "findBestTVGIDLoop s m3uName [] bestIdx = bestIdx"
| "findBestTVGIDLoop s m3uName (idx # candidates) bestIdx =
     (if matchedEPG s idx then findBestTVGIDLoop s m3uName candidates bestIdx
      else if DisplayName (epgChannels s ! idx) = m3uName then Some idx
      else findBestTVGIDLoop s m3uName candidates
             (if bestIdx = None then Some idx else bestIdx))"

definition findBestTVGIDCandidate :: "matcherState \<Rightarrow> nat list \<Rightarrow> string \<Rightarrow> nat option" where
  "findBestTVGIDCandidate s candidates m3uName = findBestTVGIDLoop s m3uName candidates None"

definition matchByTVGID ::
  "(string \<Rightarrow> 128 word) \<Rightarrow> matcherState \<Rightarrow> (string \<rightharpoonup> string) \<Rightarrow> string list \<Rightarrow> matcherState" where
  "matchByTVGID md5 s0 tvgIDMap ks =
     fold (\<lambda>(tvgID, m3uName) s.
             if matchedM3U s m3uName then s
             else let candidates = epgIDToCandidates s tvgID
                  in if length candidates = 0 then s
                     else (case findBestTVGIDCandidate s candidates m3uName of
                             Some bestIdx \<Rightarrow> addMatch md5 s bestIdx m3uName
                           | None \<Rightarrow> s))
       (rangeMap tvgIDMap ks) s0"

definition matchByDisplayName ::
  "(string \<Rightarrow> 128 word) \<Rightarrow> matcherState \<Rightarrow> (string \<Rightarrow> bool) \<Rightarrow> matcherState" where
  "matchByDisplayName md5 s0 channelNameMap =
     fold (\<lambda>i s.
             if matchedEPG s i then s
             else if \<not> channelNameMap (DisplayName (epgChannels s ! i))
                     \<or> matchedM3U s (DisplayName (epgChannels s ! i)) then s
             else addMatch md5 s i (DisplayName (epgChannels s ! i)))
       [0..<length (epgChannels s0)] s0"

definition scoreRegionMatch :: "string \<Rightarrow> string \<Rightarrow> int" where
  "scoreRegionMatch m3uRegion epgRegion =
     (if m3uRegion \<noteq> [] \<and> epgRegion = m3uRegion then 2
      else if epgRegion = [] then 1
      else 0)"

text \<open>\<^verbatim>\<open>findBestNormalizedMatch\<close>; the loop state is \<^verbatim>\<open>(bestIdx, bestScore)\<close>, with
  \<^term>\<open>None\<close> for the index \<open>-1\<close>.\<close>

fun findBestNormalizedLoop ::
  "matcherState \<Rightarrow> m3uNormalizedInfo \<Rightarrow> nat list \<Rightarrow> nat option \<times> int \<Rightarrow> nat option \<times> int" where
  "findBestNormalizedLoop s m3uInfo [] best = best"
| "findBestNormalizedLoop s m3uInfo (i # is) (bestIdx, bestScore) =
     (if matchedEPG s i then findBestNormalizedLoop s m3uInfo is (bestIdx, bestScore)
      else if normalizeChannelName (DisplayName (epgChannels s ! i)) \<noteq> normalizedName m3uInfo
      then findBestNormalizedLoop s m3uInfo is (bestIdx, bestScore)
      else (let score = scoreRegionMatch (region m3uInfo)
                          (extractRegion (DisplayName (epgChannels s ! i)))
            in if score > bestScore then findBestNormalizedLoop s m3uInfo is (Some i, score)
               else findBestNormalizedLoop s m3uInfo is (bestIdx, bestScore)))"

definition findBestNormalizedMatch :: "matcherState \<Rightarrow> m3uNormalizedInfo \<Rightarrow> nat option" where
  "findBestNormalizedMatch s m3uInfo =
     fst (findBestNormalizedLoop s m3uInfo [0..<length (epgChannels s)] (None, - 1))"

definition matchByNormalizedName ::
  "(string \<Rightarrow> 128 word) \<Rightarrow> matcherState \<Rightarrow> (string \<rightharpoonup> m3uNormalizedInfo) \<Rightarrow> string list
     \<Rightarrow> matcherState" where
  "matchByNormalizedName md5 s0 normalizedNameMap ks =
     fold (\<lambda>(_, m3uInfo) s.
             if matchedM3U s (originalName m3uInfo) then s
             else (case findBestNormalizedMatch s m3uInfo of
                     Some bestIdx \<Rightarrow> addMatch md5 s bestIdx (originalName m3uInfo)
                   | None \<Rightarrow> s))
       (rangeMap normalizedNameMap ks) s0"

text \<open>The three passes of \<^verbatim>\<open>matchChannels\<close>, as states: \<open>tvgKeys\<close> and \<open>normKeys\<close> are
  the orders in which the two \<^verbatim>\<open>range\<close> loops visit their maps.  \<^verbatim>\<open>logUnmatched\<close> only
  writes to the log.\<close>

definition afterTVGID ::
  "(string \<Rightarrow> 128 word) \<Rightarrow> Channel list \<Rightarrow> (string \<rightharpoonup> string) \<Rightarrow> string list \<Rightarrow> matcherState" where
  "afterTVGID md5 chans tvgIDMap tvgKeys = matchByTVGID md5 (newMatcherState chans) tvgIDMap tvgKeys"

definition afterDisplayName ::
  "(string \<Rightarrow> 128 word) \<Rightarrow> Channel list \<Rightarrow> (string \<Rightarrow> bool) \<Rightarrow> (string \<rightharpoonup> string) \<Rightarrow> string list
     \<Rightarrow> matcherState" where
  "afterDisplayName md5 chans channelNameMap tvgIDMap tvgKeys =
     matchByDisplayName md5 (afterTVGID md5 chans tvgIDMap tvgKeys) channelNameMap"

definition afterNormalizedName ::
  "(string \<Rightarrow> 128 word) \<Rightarrow> Channel list \<Rightarrow> (string \<Rightarrow> bool) \<Rightarrow> (string \<rightharpoonup> string) \<Rightarrow> string list
     \<Rightarrow> (string \<rightharpoonup> m3uNormalizedInfo) \<Rightarrow> string list \<Rightarrow> matcherState" where
  "afterNormalizedName md5 chans channelNameMap tvgIDMap tvgKeys normalizedNameMap normKeys =
     matchByNormalizedName md5 (afterDisplayName md5 chans channelNameMap tvgIDMap tvgKeys)
       normalizedNameMap normKeys"

definition matchChannels ::
  "(string \<Rightarrow> 128 word) \<Rightarrow> Channel list \<Rightarrow> (string \<Rightarrow> bool) \<Rightarrow> (string \<rightharpoonup> string) \<Rightarrow> string list
     \<Rightarrow> (string \<rightharpoonup> m3uNormalizedInfo) \<Rightarrow> string list \<Rightarrow> Channel list \<times> (string \<rightharpoonup> string)" where
  "matchChannels md5 chans channelNameMap tvgIDMap tvgKeys normalizedNameMap normKeys =
     (let state = afterNormalizedName md5 chans channelNameMap tvgIDMap tvgKeys
                    normalizedNameMap normKeys
      in (matchedChannels state, channelIDMap state))"

section \<open>Programme filtering and placeholders (internal/epg/filter.go)\<close>

text \<open>\<^verbatim>\<open>strconv.Atoi\<close> on a platform whose \<^verbatim>\<open>int\<close> has 64 bits: an optional sign, then
  one or more decimal digits, and the value must fit (\<open>9223372036854775808\<close> is \<open>2\<^sup>6\<^sup>3\<close>).\<close>

definition isDigit :: "char \<Rightarrow> bool" where
  "isDigit c = (c \<in> set ''0123456789'')"

fun digitsValue :: "string \<Rightarrow> int \<Rightarrow> int option" where
  "digitsValue [] acc = Some acc"
| "digitsValue (c # cs) acc =
     (if isDigit c then digitsValue cs (acc * 10 + (of_char c - 48)) else None)"

definition Atoi :: "string \<Rightarrow> int option" where
  "Atoi s =
     (let neg = (s \<noteq> [] \<and> hd s = CHR ''-'');
          ds = (if s \<noteq> [] \<and> (hd s = CHR ''-'' \<or> hd s = CHR ''+'') then tl s else s)
      in if ds = [] then None
         else (case digitsValue ds 0 of
                 None \<Rightarrow> None
               | Some n \<Rightarrow>
                   if neg then (if n \<le> 9223372036854775808 then Some (- n) else None)
                   else (if n < 9223372036854775808 then Some n else None)))"

definition isNumericSuffix :: "string \<Rightarrow> bool" where
  "isNumericSuffix s = (if s = [] then False else Atoi s \<noteq> None)"











section \<open>Multi-source merge (internal/epg/merge.go)\<close>


text \<open>The variables of \<^verbatim>\<open>MergeEPGs\<close> while its loop runs: the channels and the map of
  \<^verbatim>\<open>merged\<close>, \<^verbatim>\<open>m3uToEPGID\<close> and \<^verbatim>\<open>channelPrograms\<close>.\<close>

record mergeState =
  outChannels :: "Channel list"
  outChannelMap :: "string \<rightharpoonup> string"
  m3uToEPGID :: "string \<rightharpoonup> string"
  channelPrograms :: "string \<rightharpoonup> Programme list"

fun hasOverlap :: "Programme list \<Rightarrow> Programme \<Rightarrow> bool" where
  "hasOverlap [] newProg = False"
| "hasOverlap (p # existing) newProg =
     (if Start p = Start newProg then True else hasOverlap existing newProg)"

text \<open>The inner loop over the programmes of one source, for the map entry
  \<open>epgID \<mapsto> m3uName\<close> whose primary identifier is \<open>primaryID\<close>.\<close>

definition mergePrograms ::
  "Programme list \<Rightarrow> string \<Rightarrow> string \<Rightarrow> (string \<rightharpoonup> Programme list) \<Rightarrow> (string \<rightharpoonup> Programme list)" where
  "mergePrograms progs epgID primaryID cp0 =
     fold (\<lambda>prog cp.
             if Channel prog \<noteq> epgID then cp
             else (let remapped = prog\<lparr>Channel := primaryID\<rparr>;
                       existing = (case cp primaryID of Some ps \<Rightarrow> ps | None \<Rightarrow> [])
                   in if \<not> hasOverlap existing remapped
                      then cp(primaryID \<mapsto> existing @ [remapped]) else cp))
       progs cp0"

text \<open>The body of the loop over the entries of one source's \<^verbatim>\<open>ChannelMap\<close>.\<close>

definition mergeEntry :: "TV \<Rightarrow> string \<times> string \<Rightarrow> mergeState \<Rightarrow> mergeState" where
  "mergeEntry epg entry st =
     (let epgID = fst entry; m3uName = snd entry;
          st1 = (case m3uToEPGID st m3uName of
                   Some _ \<Rightarrow> st
                 | None \<Rightarrow>
                     st\<lparr>m3uToEPGID := (m3uToEPGID st)(m3uName \<mapsto> epgID),
                        outChannelMap := (outChannelMap st)(epgID \<mapsto> m3uName),
                        outChannels :=
                          (case find (\<lambda>ch. ID ch = epgID) (Channels epg) of
                             Some ch \<Rightarrow> outChannels st @ [ch\<lparr>DisplayName := m3uName\<rparr>]
                           | None \<Rightarrow> outChannels st)\<rparr>);
          primaryID = (case m3uToEPGID st1 m3uName of Some pid \<Rightarrow> pid | None \<Rightarrow> [])
      in st1\<lparr>channelPrograms :=
               mergePrograms (Programs epg) epgID primaryID (channelPrograms st1)\<rparr>)"




section \<open>Notions used to state the properties\<close>

text \<open>The prefixes that the first loop of \<^verbatim>\<open>normalizeChannelName\<close> cuts off, in the order
  in which it cuts them: the same pass as \<open>stripPrefixes\<close>, recording each entry that matches
  instead of only dropping it.\<close>

fun strippedPrefixes :: "string list \<Rightarrow> string \<Rightarrow> string list" where
  "strippedPrefixes [] normalized = []"
| "strippedPrefixes (pre # ps) normalized =
     (if HasPrefix (ToUpper normalized) (ToUpper pre)
      then pre # strippedPrefixes ps (drop (length pre) normalized)
      else strippedPrefixes ps normalized)"





text \<open>Stand-ins used in examples: a digest function for runs in which no identifier is
  hashed, and guide channels and playlist entries with only the fields that matter.\<close>

definition zeroDigest :: "string \<Rightarrow> 128 word" where
  "zeroDigest displayName = 0"

definition guideChannel :: "string \<Rightarrow> string \<Rightarrow> Channel" where
  "guideChannel i n = \<lparr>ID = i, DisplayName = n, Icon = \<lparr>Src = []\<rparr>\<rparr>"

definition playlistEntry :: "string \<Rightarrow> string \<Rightarrow> m3u_Channel" where
  "playlistEntry n t = \<lparr>Name = n, URL = [], TVGID = t, TVGName = [], TVGLogo = [], Group = [], Original = []\<rparr>"



text \<open>A trace of matches \<open>(epgIdx, m3uName)\<close>, replayed through \<^verbatim>\<open>addMatch\<close>.\<close>

fun replay :: "(string \<Rightarrow> 128 word) \<Rightarrow> matcherState \<Rightarrow> (nat \<times> string) list \<Rightarrow> matcherState" where
  "replay md5 s [] = s"
| "replay md5 s ((i, n) # ms) = replay md5 (addMatch md5 s i n) ms"








definition collidingGuide :: "Channel list" where
  "collidingGuide = [guideChannel ''a'' ''X'', guideChannel ''a'' ''Y'', guideChannel ''a-2'' ''Z'']"

definition collidingPlaylist :: "m3u_Channel list" where
  "collidingPlaylist = [playlistEntry ''X'' [], playlistEntry ''Y'' [], playlistEntry ''Z'' []]"







text \<open>The programmes stored for a final identifier (none when the key is absent), one round
  of the loop in \<open>mergePrograms\<close>, and the property of \<^verbatim>\<open>channelPrograms\<close> that the merge
  maintains: the programmes stored under a key carry that key and pairwise different start
  times.\<close>

definition programsOf :: "(string \<rightharpoonup> Programme list) \<Rightarrow> string \<Rightarrow> Programme list" where
  "programsOf cp k = (case cp k of Some ps \<Rightarrow> ps | None \<Rightarrow> [])"

definition mergeProgramStep ::
  "string \<Rightarrow> string \<Rightarrow> Programme \<Rightarrow> (string \<rightharpoonup> Programme list) \<Rightarrow> (string \<rightharpoonup> Programme list)" where
  "mergeProgramStep epgID primaryID prog cp =
     (if Channel prog \<noteq> epgID then cp
      else if \<not> hasOverlap (programsOf cp primaryID) (prog\<lparr>Channel := primaryID\<rparr>)
      then cp(primaryID \<mapsto> programsOf cp primaryID @ [prog\<lparr>Channel := primaryID\<rparr>])
      else cp)"




definition eventStep :: "TV \<times> string \<times> string \<Rightarrow> mergeState \<Rightarrow> mergeState" where
  "eventStep ev st = mergeEntry (fst ev) (snd ev) st"




section \<open>Properties of the name normalizer\<close>

text \<open>
  Claim C4.  The normalizer maps the names \<^verbatim>\<open>"US: ESPN"\<close>, \<^verbatim>\<open>"ESPN"\<close> and
  \<^verbatim>\<open>"USA  ESPN (HD)"\<close> (two spaces after USA) to the same string, and that string is
  \<^verbatim>\<open>"espn"\<close>.
\<close>

theorem C4_normalize_espn:
  "normalizeChannelName ''US: ESPN'' = ''espn''
   \<and> normalizeChannelName ''ESPN'' = ''espn''
   \<and> normalizeChannelName ''USA  ESPN (HD)'' = ''espn''
   \<and> normalizeChannelName ''US: ESPN'' = normalizeChannelName ''ESPN''
   \<and> normalizeChannelName ''ESPN'' = normalizeChannelName ''USA  ESPN (HD)''"
proof -
  have a: "normalizeChannelName ''US: ESPN'' = ''espn''" by code_simp
  have b: "normalizeChannelName ''ESPN'' = ''espn''" by code_simp
  have c: "normalizeChannelName ''USA  ESPN (HD)'' = ''espn''" by code_simp
  from a b c show ?thesis by simp
qed

lemma strippedPrefixes_subseq: "subseq (strippedPrefixes ps name) ps"
  by (induction ps arbitrary: name) auto

lemma stripPrefixes_drop:
  "stripPrefixes ps name = drop (length (concat (strippedPrefixes ps name))) name"
  by (induction ps arbitrary: name) (auto simp: add.commute)

text \<open>
  Claim C3, as stated: the prefix stripping of the normalizer removes at most one prefix
  of the ordered list from a name.  It fails: from \<^verbatim>\<open>"US:UK ESPN"\<close> the single pass cuts
  \<^verbatim>\<open>"US:"\<close> and then, further down the list, \<^verbatim>\<open>"UK "\<close>.
\<close>

theorem C3_counterexample:
  "\<not> length (strippedPrefixes countryPrefixes ''US:UK ESPN'') \<le> 1"
  by code_simp

text \<open>
  Claim C3, amended: the normalizer makes one pass over the ordered prefix list; each
  entry is tried once, in list order, against what is left of the name, and is cut off
  when it matches.  So the prefixes removed from one name form a sub-sequence of the list
  (each entry at most once, in list order), possibly more than one; the result is the name
  without the bytes of those prefixes.
\<close>

theorem C3_strip_each_prefix_once:
  "subseq (strippedPrefixes countryPrefixes name) countryPrefixes
   \<and> stripPrefixes countryPrefixes name
       = drop (length (concat (strippedPrefixes countryPrefixes name))) name"
  by (simp add: strippedPrefixes_subseq stripPrefixes_drop)

section \<open>Properties of the normalized-name pass\<close>









section \<open>Properties of the channel matcher\<close>

lemma addMatch_fields:
  "epgChannels (addMatch md5 s i n) = epgChannels s"
  "epgIDToCandidates (addMatch md5 s i n) = epgIDToCandidates s"
  "matchedM3U (addMatch md5 s i n) = (matchedM3U s)(n := True)"
  "matchedEPG (addMatch md5 s i n) = (matchedEPG s)(i := True)"
  by (simp_all add: addMatch_def Let_def)



lemma replay_epgChannels: "epgChannels (replay md5 s ms) = epgChannels s"
  by (induction ms arbitrary: s) (auto simp: addMatch_fields)

lemma replay_epgIDToCandidates: "epgIDToCandidates (replay md5 s ms) = epgIDToCandidates s"
  by (induction ms arbitrary: s) (auto simp: addMatch_fields)




























lemma matchByNormalizedName_all_matched:
  assumes "\<forall>e\<in>set (rangeMap normalizedNameMap ks). matchedM3U s (originalName (snd e))"
  shows "matchByNormalizedName md5 s normalizedNameMap ks = s"
proof -
  have "fold (\<lambda>(_, m3uInfo) s.
             if matchedM3U s (originalName m3uInfo) then s
             else (case findBestNormalizedMatch s m3uInfo of
                     Some bestIdx \<Rightarrow> addMatch md5 s bestIdx (originalName m3uInfo)
                   | None \<Rightarrow> s)) es s = s"
    if "\<forall>e\<in>set es. matchedM3U s (originalName (snd e))" for es
    using that by (induction es) (auto simp: case_prod_beta)
  from this [OF assms] show ?thesis by (simp only: matchByNormalizedName_def)
qed

lemma colliding_display_pass:
  "map ID (matchedChannels (afterDisplayName zeroDigest collidingGuide
      (buildChannelNameMap collidingPlaylist) (buildTVGIDMap collidingPlaylist) []))
     = [''a'', ''a-2'', ''a-2'']"
  by code_simp

lemma colliding_display_map:
  "map (channelIDMap (afterDisplayName zeroDigest collidingGuide
      (buildChannelNameMap collidingPlaylist) (buildTVGIDMap collidingPlaylist) [])) [''a'', ''a-2'']
     = [Some ''X'', Some ''Z'']"
  by code_simp

lemma colliding_all_matched:
  "list_all (\<lambda>e. matchedM3U (afterDisplayName zeroDigest collidingGuide
      (buildChannelNameMap collidingPlaylist) (buildTVGIDMap collidingPlaylist) []) (originalName (snd e)))
     (rangeMap (buildNormalizedNameMap collidingPlaylist) [''x'', ''y'', ''z''])"
  by code_simp

lemma colliding_keys:
  "map fst (rangeMap (buildNormalizedNameMap collidingPlaylist) [''x'', ''y'', ''z''])
     = [''x'', ''y'', ''z'']"
  by code_simp

text \<open>
  Claim C2 says that the channels returned by \<^verbatim>\<open>matchChannels\<close> carry pairwise distinct
  identifiers.  The code does not achieve it: for a guide with identifiers \<^verbatim>\<open>a\<close>, \<^verbatim>\<open>a\<close>,
  \<^verbatim>\<open>a-2\<close> and playlist names matching all three, the second channel is renamed \<^verbatim>\<open>a-2\<close>,
  the third keeps its native \<^verbatim>\<open>a-2\<close>, and the map entry of the second is overwritten.
\<close>

theorem C2_duplicate_identifier:
  "map ID (fst (matchChannels zeroDigest collidingGuide (buildChannelNameMap collidingPlaylist)
      (buildTVGIDMap collidingPlaylist) []
      (buildNormalizedNameMap collidingPlaylist) [''x'', ''y'', ''z'']))
     = [''a'', ''a-2'', ''a-2'']
   \<and> map (snd (matchChannels zeroDigest collidingGuide (buildChannelNameMap collidingPlaylist)
      (buildTVGIDMap collidingPlaylist) []
      (buildNormalizedNameMap collidingPlaylist) [''x'', ''y'', ''z''])) [''a'', ''a-2'']
     = [Some ''X'', Some ''Z'']"
proof -
  let ?s2 = "afterDisplayName zeroDigest collidingGuide
      (buildChannelNameMap collidingPlaylist) (buildTVGIDMap collidingPlaylist) []"
  have "\<forall>e\<in>set (rangeMap (buildNormalizedNameMap collidingPlaylist) [''x'', ''y'', ''z'']).
          matchedM3U ?s2 (originalName (snd e))"
    using colliding_all_matched by (simp only: list_all_iff)
  then have "matchByNormalizedName zeroDigest ?s2 (buildNormalizedNameMap collidingPlaylist)
               [''x'', ''y'', ''z''] = ?s2"
    by (rule matchByNormalizedName_all_matched)
  then have e: "matchChannels zeroDigest collidingGuide (buildChannelNameMap collidingPlaylist)
      (buildTVGIDMap collidingPlaylist) []
      (buildNormalizedNameMap collidingPlaylist) [''x'', ''y'', ''z'']
      = (matchedChannels ?s2, channelIDMap ?s2)"
    by (simp only: matchChannels_def afterNormalizedName_def Let_def)
  show ?thesis unfolding e fst_conv snd_conv
    by (rule conjI [OF colliding_display_pass colliding_display_map])
qed

section \<open>Properties of programme filtering\<close>

text \<open>The cases of \<^verbatim>\<open>TestIsNumericSuffix\<close>, and the limits of a 64-bit \<^verbatim>\<open>int\<close>.\<close>

lemma isNumericSuffix_examples:
  "map isNumericSuffix [''1'', ''2'', ''123'', ''0'', [], ''a'', ''1a'', ''a1'', ''-1'',
      ''9223372036854775807'', ''9223372036854775808'']
     = [True, True, True, True, False, False, False, False, True, True, False]"
  by code_simp
























section \<open>Properties of the placeholder synthesizer\<close>












section \<open>Properties of the multi-source merge\<close>

lemma mergePrograms_fold:
  "mergePrograms progs epgID primaryID cp = fold (mergeProgramStep epgID primaryID) progs cp"
  unfolding mergePrograms_def mergeProgramStep_def programsOf_def Let_def ..

lemma hasOverlap_iff: "hasOverlap existing newProg \<longleftrightarrow> Start newProg \<in> Start ` set existing"
  by (induction existing) auto

lemma mergeProgramStep_cases:
  "mergeProgramStep e pid prog cp = cp
   \<or> (Channel prog = e \<and> Start prog \<notin> Start ` set (programsOf cp pid)
      \<and> mergeProgramStep e pid prog cp = cp(pid \<mapsto> programsOf cp pid @ [prog\<lparr>Channel := pid\<rparr>]))"
  by (simp add: mergeProgramStep_def hasOverlap_iff)

lemma mergeProgramStep_grows:
  "\<exists>ps'. programsOf (mergeProgramStep e pid prog cp) k = programsOf cp k @ ps'"
  using mergeProgramStep_cases [of e pid prog cp]
  by (auto simp: programsOf_def)

lemma mergeProgramStep_dom: "cp k \<noteq> None \<Longrightarrow> mergeProgramStep e pid prog cp k \<noteq> None"
  using mergeProgramStep_cases [of e pid prog cp] by auto


lemma mergeProgramStep_covers:
  assumes "Channel prog = e"
  shows "Start prog \<in> Start ` set (programsOf (mergeProgramStep e pid prog cp) pid)"
proof (cases "Start prog \<in> Start ` set (programsOf cp pid)")
  case True
  then have "mergeProgramStep e pid prog cp = cp"
    by (simp add: mergeProgramStep_def hasOverlap_iff)
  with True show ?thesis by simp
next
  case False
  with assms have "mergeProgramStep e pid prog cp
      = cp(pid \<mapsto> programsOf cp pid @ [prog\<lparr>Channel := pid\<rparr>])"
    by (simp add: mergeProgramStep_def hasOverlap_iff)
  then have "programsOf (mergeProgramStep e pid prog cp) pid
      = programsOf cp pid @ [prog\<lparr>Channel := pid\<rparr>]"
    by (simp add: programsOf_def)
  then show ?thesis by (simp add: image_iff)
qed

lemma mergePrograms_grows:
  "\<exists>ps'. programsOf (mergePrograms progs e pid cp) k = programsOf cp k @ ps'"
  unfolding mergePrograms_fold
proof (induction progs arbitrary: cp)
  case Nil
  show ?case by simp
next
  case (Cons prog progs)
  from mergeProgramStep_grows [of e pid prog cp k] obtain ps1 where
    1: "programsOf (mergeProgramStep e pid prog cp) k = programsOf cp k @ ps1" ..
  from Cons.IH [of "mergeProgramStep e pid prog cp"] obtain ps2 where
    2: "programsOf (fold (mergeProgramStep e pid) progs (mergeProgramStep e pid prog cp)) k
          = programsOf (mergeProgramStep e pid prog cp) k @ ps2" ..
  have "programsOf (fold (mergeProgramStep e pid) (prog # progs) cp) k = programsOf cp k @ (ps1 @ ps2)"
    by (simp add: 1 2)
  then show ?case ..
qed


lemma mergePrograms_covers:
  assumes "prog \<in> set progs" "Channel prog = e"
  shows "Start prog \<in> Start ` set (programsOf (mergePrograms progs e pid cp) pid)"
  using assms(1)
proof (induction progs arbitrary: cp)
  case Nil
  then show ?case by simp
next
  case (Cons q progs)
  show ?case
  proof (cases "q = prog")
    case True
    from mergePrograms_grows [of progs e pid "mergeProgramStep e pid prog cp" pid] obtain ps' where
      "programsOf (mergePrograms progs e pid (mergeProgramStep e pid prog cp)) pid
         = programsOf (mergeProgramStep e pid prog cp) pid @ ps'" ..
    with mergeProgramStep_covers [OF assms(2), of pid cp] True show ?thesis
      by (auto simp: mergePrograms_fold)
  next
    case False
    with Cons.prems have "prog \<in> set progs" by simp
    from Cons.IH [OF this, of "mergeProgramStep e pid q cp"] show ?thesis
      by (simp add: mergePrograms_fold)
  qed
qed

lemma mergePrograms_other: "k \<noteq> pid \<Longrightarrow> mergePrograms progs e pid cp k = cp k"
  unfolding mergePrograms_fold
  by (induction progs arbitrary: cp) (simp_all add: mergeProgramStep_def)





lemma eventStep_m3uToEPGID:
  "m3uToEPGID (eventStep (epg, e, n) st)
     = (case m3uToEPGID st n of Some pid \<Rightarrow> m3uToEPGID st | None \<Rightarrow> (m3uToEPGID st)(n \<mapsto> e))"
  by (simp add: eventStep_def mergeEntry_def Let_def split: option.splits)

lemma eventStep_outChannels:
  "outChannels (eventStep (epg, e, n) st)
     = (case m3uToEPGID st n of
          Some pid \<Rightarrow> outChannels st
        | None \<Rightarrow> outChannels st
                   @ (case find (\<lambda>ch. ID ch = e) (Channels epg) of
                        Some ch \<Rightarrow> [ch\<lparr>DisplayName := n\<rparr>] | None \<Rightarrow> []))"
  by (simp add: eventStep_def mergeEntry_def Let_def split: option.splits)











end
